theory Spec2Isabelle
  imports Complex_Main "HOL-Library.AList"
begin

section \<open>Strings\<close>

text \<open>
  A string of the script is embedded as the list of the bytes of its UTF-8 encoding
  (\<open>index.js\<close> is a UTF-8 file, \<open>writeFileSync\<close> writes UTF-8 and the terminal
  delivers UTF-8).  The separators the script splits on (\<open>,\<close>) and joins with are ASCII,
  so they never occur inside a multi-byte character.
\<close>

text \<open>
  \<open>String.prototype.split(sep)\<close> for a one-character separator: the empty string
  splits into one empty piece, and \<open>n\<close> separators give \<open>n + 1\<close> pieces.
\<close>

fun js_split :: "char \<Rightarrow> string \<Rightarrow> string list" where
  "js_split sep [] = [[]]"
| "js_split sep (c # cs) =
     (if c = sep then [] # js_split sep cs
      else (case js_split sep cs of
              [] \<Rightarrow> [[c]]
            | t # ts \<Rightarrow> (c # t) # ts))"

text \<open>\<open>Array.prototype.join(sep)\<close> on an array of strings.\<close>

fun js_join :: "string \<Rightarrow> string list \<Rightarrow> string" where
  "js_join sep [] = []"
| "js_join sep [x] = x"
| "js_join sep (x # y # ys) = x @ sep @ js_join sep (y # ys)"

text \<open>
  The characters \<open>String.prototype.trim\<close> removes (ECMAScript WhiteSpace and
  LineTerminator), each as its UTF-8 encoding: U+0009 to U+000D, U+0020, U+00A0, U+1680,
  U+2000 to U+200A, U+2028, U+2029, U+202F, U+205F, U+3000 and U+FEFF.
\<close>

definition white_space :: "string list" where
  "white_space =
     [[CHR 0x09], [CHR 0x0A], [CHR 0x0B], [CHR 0x0C], [CHR 0x0D], [CHR 0x20],
      [CHR 0xC2, CHR 0xA0],
      [CHR 0xE1, CHR 0x9A, CHR 0x80],
      [CHR 0xE2, CHR 0x80, CHR 0x80], [CHR 0xE2, CHR 0x80, CHR 0x81],
      [CHR 0xE2, CHR 0x80, CHR 0x82], [CHR 0xE2, CHR 0x80, CHR 0x83],
      [CHR 0xE2, CHR 0x80, CHR 0x84], [CHR 0xE2, CHR 0x80, CHR 0x85],
      [CHR 0xE2, CHR 0x80, CHR 0x86], [CHR 0xE2, CHR 0x80, CHR 0x87],
      [CHR 0xE2, CHR 0x80, CHR 0x88], [CHR 0xE2, CHR 0x80, CHR 0x89],
      [CHR 0xE2, CHR 0x80, CHR 0x8A],
      [CHR 0xE2, CHR 0x80, CHR 0xA8], [CHR 0xE2, CHR 0x80, CHR 0xA9],
      [CHR 0xE2, CHR 0x80, CHR 0xAF],
      [CHR 0xE2, CHR 0x81, CHR 0x9F],
      [CHR 0xE3, CHR 0x80, CHR 0x80],
      [CHR 0xEF, CHR 0xBB, CHR 0xBF]]"

text \<open>One leading occurrence of one of the sequences \<open>ws\<close>, removed; \<open>None\<close> when
  the string starts with none of them.\<close>

definition strip_one :: "string list \<Rightarrow> string \<Rightarrow> string option" where
  "strip_one ws s =
     (case List.find (\<lambda>w. w \<noteq> [] \<and> take (length w) s = w) ws of
        None \<Rightarrow> None
      | Some w \<Rightarrow> Some (drop (length w) s))"

function strip_all :: "string list \<Rightarrow> string \<Rightarrow> string" where
  "strip_all ws s = (case strip_one ws s of None \<Rightarrow> s | Some r \<Rightarrow> strip_all ws r)"
  by pat_completeness auto
termination
proof (relation "measure (\<lambda>(ws, s). length s)")
  show "wf (measure (\<lambda>(ws, s). length s))" by simp
next
  fix ws :: "string list" and s r :: string
  assume "strip_one ws s = Some r"
  then obtain w where w: "w \<noteq> []" "take (length w) s = w" "r = drop (length w) s"
    by (auto simp: strip_one_def find_Some_iff split: option.splits)
  from w(1,2) have "s \<noteq> []" by auto
  with w show "((ws, r), (ws, s)) \<in> measure (\<lambda>(ws, s). length s)"
    by (cases w) auto
qed

declare strip_all.simps [simp del]

definition trimStart :: "string \<Rightarrow> string" where
  "trimStart s = strip_all white_space s"

text \<open>Trailing white space: the same scan on the reversed bytes.\<close>

definition trimEnd :: "string \<Rightarrow> string" where
  "trimEnd s = rev (strip_all (map rev white_space) (rev s))"

definition trim :: "string \<Rightarrow> string" where
  "trim s = trimEnd (trimStart s)"

text \<open>
  \<open>input.split(",").map(d => d.trim()).filter(Boolean)\<close>, the expression of lines 54
  and 69: the only falsy string is the empty one.
\<close>

definition tokens :: "string \<Rightarrow> string list" where
  "tokens input = filter (\<lambda>t. t \<noteq> []) (map trim (js_split (CHR '','') input))"

section \<open>The answers of the prompt\<close>

datatype language = JavaScript | TypeScript

text \<open>
  \<open>envVars\<close> is asked only \<open>when\<close> \<open>addEnv\<close> is true; otherwise the property is
  absent (\<open>undefined\<close>), which is \<open>None\<close> here.  \<open>dependencies\<close> has the default \<open>""\<close>.
\<close>

record answers =
  projectName :: string
  language :: language
  useMongo :: bool
  useDocker :: bool
  dependencies :: string
  addEnv :: bool
  envVars :: "string option"
  useESLint :: bool
  initGit :: bool

definition isTS :: "answers \<Rightarrow> bool" where
  "isTS a \<longleftrightarrow> language a = TypeScript"

section \<open>Paths and the file system\<close>

text \<open>
  A path is the list of its segments from the root.  \<open>path_join dir name\<close> is
  \<open>path.join(dir, name)\<close> on POSIX for a normalised absolute \<open>dir\<close>: the segments of
  \<open>name\<close> are appended, empty and \<open>.\<close> segments dropped, \<open>..\<close> stepping up (and staying
  at the root).
\<close>

type_synonym path = "string list"

fun normalize :: "path \<Rightarrow> string list \<Rightarrow> path" where
  "normalize p [] = p"
| "normalize p (seg # segs) =
     (if seg = [] \<or> seg = ''.'' then normalize p segs
      else if seg = ''..'' then normalize (butlast p) segs
      else normalize (p @ [seg]) segs)"

definition path_join :: "path \<Rightarrow> string \<Rightarrow> path" where
  "path_join dir name = normalize dir (js_split (CHR ''/'') name)"

record fsys =
  dirs :: "path set"
  files :: "path \<rightharpoonup> string"

datatype error =
    PathExistsError path
  | FilesystemError path
  | ExternalCommandError string nat
  | InputParseError
  | TypeError

text \<open>
  \<open>fs.mkdirSync(p)\<close> (not recursive): EEXIST when something is at \<open>p\<close>, ENOENT when the
  parent is not a directory.
\<close>

definition mkdirSync :: "path \<Rightarrow> fsys \<Rightarrow> error + fsys" where
  "mkdirSync p d =
     (if p \<in> dirs d \<or> p \<in> dom (files d) then Inl (PathExistsError p)
      else if butlast p \<notin> dirs d then Inl (FilesystemError p)
      else Inr \<lparr>dirs = insert p (dirs d), files = files d\<rparr>)"

text \<open>
  \<open>fs.writeFileSync(p, content)\<close>: creates or replaces the file; EISDIR when \<open>p\<close> is a
  directory, ENOENT when the parent is not a directory.
\<close>

definition writeFileSync :: "path \<Rightarrow> string \<Rightarrow> fsys \<Rightarrow> error + fsys" where
  "writeFileSync p content d =
     (if p \<in> dirs d \<or> butlast p \<notin> dirs d then Inl (FilesystemError p)
      else Inr \<lparr>dirs = dirs d, files = (files d)(p \<mapsto> content)\<rparr>)"

definition readFileSync :: "path \<Rightarrow> fsys \<Rightarrow> error + string" where
  "readFileSync p d = (case files d p of None \<Rightarrow> Inl (FilesystemError p) | Some content \<Rightarrow> Inr content)"

section \<open>JSON values and the start script\<close>

text \<open>
  The values \<open>JSON.parse\<close> returns.  An object is the list of its properties in
  enumeration order; a JavaScript object has no two properties with one key.
\<close>

datatype json =
    JNull
  | JBool bool
  | JNum real
  | JStr string
  | JArr "json list"
  | JObj "(string \<times> json) list"

text \<open>Decimal digits of an array index, as a property key.\<close>

fun digits :: "nat \<Rightarrow> nat \<Rightarrow> string" where
  "digits 0 n = []"
| "digits (Suc fuel) n =
     (if n < 10 then [char_of (48 + n)]
      else digits fuel (n div 10) @ [char_of (48 + n mod 10)])"

definition index_key :: "nat \<Rightarrow> string" where
  "index_key n = digits (Suc n) n"

text \<open>
  The own enumerable properties that object spread \<open>{...v}\<close> copies: those of an
  object; the indexed elements of an array; the indexed characters of a string (one
  property per \<open>char\<close> here, which is the script's behaviour for ASCII text); none for
  \<open>undefined\<close> (\<open>None\<close>), \<open>null\<close>, a boolean or a number.
\<close>

fun spread :: "json option \<Rightarrow> (string \<times> json) list" where
  "spread (Some (JObj props)) = props"
| "spread (Some (JArr xs)) = zip (map index_key [0..<length xs]) xs"
| "spread (Some (JStr s)) = zip (map index_key [0..<length s]) (map (\<lambda>c. JStr [c]) s)"
| "spread _ = []"

definition startScript :: "answers \<Rightarrow> string" where
  "startScript a = (if isTS a then ''ts-node-dev src/index.ts'' else ''node server.js'')"

text \<open>
  Lines 165 to 168, \<open>packageJson.scripts = { ...packageJson.scripts, start: startScript }\<close>.
  Reading \<open>.scripts\<close> of \<open>null\<close> throws a TypeError (\<open>None\<close>).  On an object the property
  \<open>start\<close> of the copy and the property \<open>scripts\<close> of the manifest are replaced where
  they stand, or added last.  On a boolean, a number, a string or an array the read gives
  \<open>undefined\<close> and the assignment adds nothing that \<open>JSON.stringify\<close> writes (the script
  is not in strict mode), so the value is written back as it was read.
\<close>

fun set_start :: "string \<Rightarrow> json \<Rightarrow> json option" where
  "set_start s JNull = None"
| "set_start s (JObj props) =
     Some (JObj (AList.update ''scripts''
       (JObj (AList.update ''start'' (JStr s) (spread (map_of props ''scripts'')))) props))"
| "set_start s j = Some j"

section \<open>Effects\<close>

text \<open>
  What a run does to the world, in the order it does it: the directories created, the
  files written and read (with their content), the commands run (with the directory they
  ran in and their exit status) and the lines printed.  A call that throws before it
  changes anything (\<open>mkdirSync\<close>, \<open>writeFileSync\<close>, \<open>readFileSync\<close>) leaves no
  event.
\<close>

datatype event =
    Mkdir path
  | WriteFile path string
  | ReadFile path string
  | Exec string path nat
  | Log string

record world =
  disk :: fsys
  trace :: "event list"

text \<open>
  What the script does not define: the commands \<open>execSync\<close> launches (each takes the file
  system as it is and leaves it changed, with an exit status), \<open>JSON.parse\<close> (\<open>None\<close>
  for a SyntaxError) and \<open>JSON.stringify(_, null, 2)\<close>.
\<close>

record runtime =
  command :: "string \<Rightarrow> path \<Rightarrow> fsys \<Rightarrow> nat \<times> fsys"
  JSON_parse :: "string \<Rightarrow> json option"
  JSON_stringify :: "json \<Rightarrow> string"

text \<open>
  The statements of the script with an effect.  \<open>PatchStart p s\<close> is lines 159 to 170
  (read the manifest, parse it, set \<open>scripts.start\<close>, write it back); \<open>Throw\<close> is an
  expression that throws.
\<close>

datatype stmt =
    MkdirSync path
  | WriteFileSync path string
  | ExecSync string path
  | ConsoleLog string
  | PatchStart path string
  | Throw error

definition emit :: "event \<Rightarrow> world \<Rightarrow> world" where
  "emit e w = \<lparr>disk = disk w, trace = trace w @ [e]\<rparr>"

definition write_file :: "path \<Rightarrow> string \<Rightarrow> world \<Rightarrow> error option \<times> world" where
  "write_file p content w =
     (case writeFileSync p content (disk w) of
        Inl e \<Rightarrow> (Some e, w)
      | Inr d \<Rightarrow> (None, \<lparr>disk = d, trace = trace w @ [WriteFile p content]\<rparr>))"

text \<open>
  One statement: the exception it throws, if any, and the world it leaves.
  \<open>execSync\<close> throws when the command's exit status is not zero.
\<close>

fun exec_stmt :: "runtime \<Rightarrow> stmt \<Rightarrow> world \<Rightarrow> error option \<times> world" where
  "exec_stmt rt (MkdirSync p) w =
     (case mkdirSync p (disk w) of
        Inl e \<Rightarrow> (Some e, w)
      | Inr d \<Rightarrow> (None, \<lparr>disk = d, trace = trace w @ [Mkdir p]\<rparr>))"
| "exec_stmt rt (WriteFileSync p content) w = write_file p content w"
| "exec_stmt rt (ExecSync cmd cwd) w =
     (case command rt cmd cwd (disk w) of
        (status, d) \<Rightarrow>
          (if status = 0 then None else Some (ExternalCommandError cmd status),
           \<lparr>disk = d, trace = trace w @ [Exec cmd cwd status]\<rparr>))"
| "exec_stmt rt (ConsoleLog line) w = (None, emit (Log line) w)"
| "exec_stmt rt (PatchStart p s) w =
     (case readFileSync p (disk w) of
        Inl e \<Rightarrow> (Some e, w)
      | Inr content \<Rightarrow>
          (let w1 = emit (ReadFile p content) w in
           case JSON_parse rt content of
             None \<Rightarrow> (Some InputParseError, w1)
           | Some packageJson \<Rightarrow>
               (case set_start s packageJson of
                  None \<Rightarrow> (Some TypeError, w1)
                | Some patched \<Rightarrow>
                    write_file p (JSON_stringify rt patched) w1)))"
| "exec_stmt rt (Throw e) w = (Some e, w)"

text \<open>Statements in sequence: the first exception ends the run (nothing catches it).\<close>

fun run :: "runtime \<Rightarrow> stmt list \<Rightarrow> world \<Rightarrow> error option \<times> world" where
  "run rt [] w = (None, w)"
| "run rt (s # ss) w =
     (case exec_stmt rt s w of
        (Some e, w') \<Rightarrow> (Some e, w')
      | (None, w') \<Rightarrow> run rt ss w')"

section \<open>The generator\<close>

definition folders :: "string list" where
  "folders = [''routes'', ''controllers'', ''models'', ''config'']"

definition deps :: "answers \<Rightarrow> string list" where
  "deps a = [''express''] @ (if useMongo a then [''mongoose''] else []) @ tokens (dependencies a)"

definition devDeps :: "answers \<Rightarrow> string list" where
  "devDeps a =
     (if isTS a then [''typescript'', ''@types/node'', ''@types/express'', ''ts-node-dev'']
      else [])"

definition serverPath :: "answers \<Rightarrow> path" where
  "serverPath a = (if isTS a then [''src'', ''index.ts''] else [''server.js''])"

definition serverContent :: "answers \<Rightarrow> string" where
  "serverContent a =
     (if isTS a
      then ''import express from 'express';\<newline>const app = express();\<newline>app.listen(3000, () => console.log('Server running'));\<newline>''
      else ''const express = require('express');\<newline>const app = express();\<newline>app.listen(3000, () => console.log('Server running'));\<newline>'')"

definition envContent :: "string list \<Rightarrow> string" where
  "envContent vars = js_join ''\<newline>'' (map (\<lambda>v. v @ ''='') vars)"

definition dockerfile :: string where
  \<open>dockerfile = trim ''\<newline>FROM node:18\<newline>WORKDIR /app\<newline>COPY package*.json ./\<newline>RUN npm install\<newline>COPY . .\<newline>CMD ["npm", "start"]\<newline>EXPOSE 3000\<newline>    ''\<close>

definition gitignore :: string where
  "gitignore = trim ''\<newline>node_modules\<newline>.env\<newline>dist\<newline>.DS_Store\<newline>npm-debug.log\<newline>  ''"

definition tsconfig :: json where
  "tsconfig =
     JObj [(''compilerOptions'', JObj
       [(''target'', JStr ''ES6''),
        (''module'', JStr ''commonjs''),
        (''outDir'', JStr ''./dist''),
        (''rootDir'', JStr ''./src''),
        (''strict'', JBool True),
        (''esModuleInterop'', JBool True)])]"

definition lintDeps :: "answers \<Rightarrow> string list" where
  "lintDeps a =
     [''eslint'', ''prettier'']
     @ (if isTS a then [''@typescript-eslint/parser'', ''@typescript-eslint/eslint-plugin'']
        else [])"

definition eslintConfig :: "answers \<Rightarrow> json" where
  "eslintConfig a =
     (if isTS a
      then JObj
        [(''parser'', JStr ''@typescript-eslint/parser''),
         (''extends'', JArr [JStr ''eslint:recommended'',
                             JStr ''plugin:@typescript-eslint/recommended'']),
         (''parserOptions'', JObj [(''ecmaVersion'', JNum 2020),
                                   (''sourceType'', JStr ''module'')]),
         (''rules'', JObj [])]
      else JObj
        [(''env'', JObj [(''node'', JBool True), (''es2021'', JBool True)]),
         (''extends'', JArr [JStr ''eslint:recommended'']),
         (''parserOptions'', JObj [(''ecmaVersion'', JStr ''latest''),
                                   (''sourceType'', JStr ''module'')]),
         (''rules'', JObj [])])"

text \<open>Lines 50 to 96: the directories and the files written before any command runs.\<close>

definition env_stmts :: "path \<Rightarrow> answers \<Rightarrow> stmt list" where
  "env_stmts projectPath a =
     (if addEnv a then
        (case envVars a of
           None \<Rightarrow> [Throw TypeError]
         | Some input \<Rightarrow>
             [WriteFileSync (projectPath @ [''.env'']) (envContent (tokens input)),
              ConsoleLog (''.env file created with: '' @ js_join '', '' (tokens input))])
      else [])"

definition scaffold :: "path \<Rightarrow> answers \<Rightarrow> stmt list" where
  "scaffold projectPath a =
     [MkdirSync projectPath]
     @ map (\<lambda>folder. MkdirSync (projectPath @ [folder])) folders
     @ (if isTS a then [MkdirSync (projectPath @ [''src''])] else [])
     @ [WriteFileSync (projectPath @ serverPath a) (serverContent a)]
     @ env_stmts projectPath a
     @ (if useDocker a then [WriteFileSync (projectPath @ [''Dockerfile'']) dockerfile] else [])
     @ [WriteFileSync (projectPath @ [''.gitignore'']) gitignore]"

text \<open>Lines 99 to 101.\<close>

definition install :: "path \<Rightarrow> answers \<Rightarrow> stmt list" where
  "install projectPath a =
     [ExecSync ''npm init -y'' projectPath]
     @ (if deps a \<noteq> []
        then [ExecSync (''npm install '' @ js_join '' '' (deps a)) projectPath] else [])
     @ (if devDeps a \<noteq> []
        then [ExecSync (''npm install -D '' @ js_join '' '' (devDeps a)) projectPath] else [])"

text \<open>Lines 104 to 145.\<close>

definition configs :: "runtime \<Rightarrow> path \<Rightarrow> answers \<Rightarrow> stmt list" where
  "configs rt projectPath a =
     (if isTS a
      then [WriteFileSync (projectPath @ [''tsconfig.json'']) (JSON_stringify rt tsconfig)]
      else [])
     @ (if useESLint a
        then [ExecSync (''npm install -D '' @ js_join '' '' (lintDeps a)) projectPath,
              WriteFileSync (projectPath @ [''.eslintrc.json''])
                (JSON_stringify rt (eslintConfig a)),
              WriteFileSync (projectPath @ [''.prettierrc'']) ''{}'']
        else [])"

text \<open>Lines 148 to 153.\<close>

definition commit_command :: string where
  \<open>commit_command = ''git commit -m "Initial commit"''\<close>

definition git :: "path \<Rightarrow> answers \<Rightarrow> stmt list" where
  "git projectPath a =
     (if initGit a
      then [ExecSync ''git init'' projectPath,
            ExecSync ''git add .'' projectPath,
            ExecSync commit_command projectPath,
            ConsoleLog ''Git repo initialized with first commit.'']
      else [])"

text \<open>Line 155, the success message.\<close>

definition created_message :: "answers \<Rightarrow> string" where
  \<open>created_message a = ''\<newline> Project "'' @ projectName a @ ''" created successfully!''\<close>

definition created :: "answers \<Rightarrow> stmt" where
  "created a = ConsoleLog (created_message a)"

text \<open>Lines 158 to 170, the start script of the manifest.\<close>

definition manifest :: "path \<Rightarrow> path" where
  "manifest projectPath = projectPath @ [''package.json'']"

definition patch :: "path \<Rightarrow> answers \<Rightarrow> stmt" where
  "patch projectPath a = PatchStart (manifest projectPath) (startScript a)"

text \<open>Lines 172 to 180, the instructions.\<close>

definition instructions :: "answers \<Rightarrow> stmt list" where
  "instructions a =
     [ConsoleLog ([CHR 0xC3, CHR 0xB0, CHR 0xC5, CHR 0xB8, CHR 0xC5, CHR 0xA1,
                   CHR 0xE2, CHR 0x82, CHR 0xAC]
                  @ '' To run the app:\<newline>   npm start'')]
     @ (if isTS a
        then [ConsoleLog ''\<newline> To compile the app:\<newline>   tsc'',
              ConsoleLog '' To run the app:\<newline>   node dist/index.js'',
              ConsoleLog '' Or use ts-node:\<newline>   npx ts-node src/index.ts'']
        else [ConsoleLog '' To run the app:\<newline>   node server.js''])"

definition script :: "runtime \<Rightarrow> path \<Rightarrow> answers \<Rightarrow> stmt list" where
  "script rt projectPath a =
     scaffold projectPath a @ install projectPath a @ configs rt projectPath a
     @ git projectPath a @ [created a] @ [patch projectPath a] @ instructions a"

text \<open>
  Line 47 and the run: \<open>cwd\<close> is \<open>process.cwd()\<close> and \<open>d\<close> the file system the script
  starts on.  The result is the exception that ended the run (\<open>None\<close> when it ran to
  its end) and the world it left.
\<close>

definition projectPath :: "path \<Rightarrow> answers \<Rightarrow> path" where
  "projectPath cwd a = path_join cwd (projectName a)"

definition generate :: "runtime \<Rightarrow> path \<Rightarrow> answers \<Rightarrow> fsys \<Rightarrow> error option \<times> world" where
  "generate rt cwd a d = run rt (script rt (projectPath cwd a) a) \<lparr>disk = d, trace = []\<rparr>"

section \<open>Reading a run\<close>

text \<open>The directories a trace creates, in order.\<close>

fun mkdirs :: "event list \<Rightarrow> path list" where
  "mkdirs [] = []"
| "mkdirs (Mkdir p # es) = p # mkdirs es"
| "mkdirs (e # es) = mkdirs es"

text \<open>The names of the subdirectories of \<open>p\<close> on a disk.\<close>

definition subfolders :: "path \<Rightarrow> fsys \<Rightarrow> string set" where
  "subfolders p d = {name. p @ [name] \<in> dirs d}"

text \<open>
  The effect of the events of a trace on a disk, one after the other: a created
  directory is added, a written file is set, a command does what it does; reading and
  printing change nothing.  No event removes what an earlier one made.
\<close>

fun apply_event :: "runtime \<Rightarrow> event \<Rightarrow> fsys \<Rightarrow> fsys" where
  "apply_event rt (Mkdir p) d = \<lparr>dirs = insert p (dirs d), files = files d\<rparr>"
| "apply_event rt (WriteFile p content) d = \<lparr>dirs = dirs d, files = (files d)(p \<mapsto> content)\<rparr>"
| "apply_event rt (Exec cmd cwd status) d = snd (command rt cmd cwd d)"
| "apply_event rt (ReadFile p content) d = d"
| "apply_event rt (Log line) d = d"

fun replay :: "runtime \<Rightarrow> event list \<Rightarrow> fsys \<Rightarrow> fsys" where
  "replay rt [] d = d"
| "replay rt (e # es) d = replay rt es (apply_event rt e d)"

text \<open>A trace in which every command exited with status 0.\<close>

fun commands_ok :: "event list \<Rightarrow> bool" where
  "commands_ok [] = True"
| "commands_ok (Exec cmd cwd status # es) = (status = 0 \<and> commands_ok es)"
| "commands_ok (e # es) = commands_ok es"

text \<open>The events a statement can leave in the trace.\<close>

fun emits :: "stmt \<Rightarrow> event \<Rightarrow> bool" where
  "emits (MkdirSync p) (Mkdir q) = (p = q)"
| "emits (WriteFileSync p c) (WriteFile q c') = (p = q \<and> c = c')"
| "emits (ExecSync cmd cwd) (Exec cmd' cwd' status) = (cmd = cmd' \<and> cwd = cwd')"
| "emits (ConsoleLog l) (Log l') = (l = l')"
| "emits (PatchStart p s) (ReadFile q c) = (p = q)"
| "emits (PatchStart p s) (WriteFile q c) = (p = q)"
| "emits _ _ = False"

text \<open>The directories a list of statements asks for, in order.\<close>

fun mkdir_stmts :: "stmt list \<Rightarrow> path list" where
  "mkdir_stmts [] = []"
| "mkdir_stmts (MkdirSync p # ss) = p # mkdir_stmts ss"
| "mkdir_stmts (s # ss) = mkdir_stmts ss"

text \<open>
  The reader the specification's round-trip property of \<open>.env\<close> speaks of (the script
  has none): the file is read line by line, empty lines skipped, and the name of a
  variable is what stands before the first \<open>=\<close> of its line.
\<close>

definition env_names :: "string \<Rightarrow> string list" where
  "env_names content =
     map (takeWhile (\<lambda>c. c \<noteq> CHR ''=''))
       (filter (\<lambda>line. line \<noteq> []) (js_split (CHR 0x0A) content))"

section \<open>Example runs\<close>

text \<open>
  A runtime to run the script on: \<open>npm init -y\<close> writes a manifest, \<open>npm install\<close>
  creates \<open>node_modules\<close>, \<open>git init\<close> creates \<open>.git\<close>, every command exits with 0;
  \<open>JSON.parse\<close> knows the manifest's text, and \<open>JSON.stringify\<close> tells an object
  with a \<open>scripts\<close> property from other values.
\<close>

definition npm_manifest :: json where
  "npm_manifest =
     JObj [(''name'', JStr ''demo''),
           (''version'', JStr ''1.0.0''),
           (''scripts'', JObj [(''test'', JStr ''exit 1'')])]"

definition demo_command :: "string \<Rightarrow> path \<Rightarrow> fsys \<Rightarrow> nat \<times> fsys" where
  "demo_command cmd cwd d =
     (if cmd = ''npm init -y''
      then (0, \<lparr>dirs = dirs d, files = (files d)(cwd @ [''package.json''] \<mapsto> ''manifest'')\<rparr>)
      else if take 12 cmd = ''npm install ''
      then (0, \<lparr>dirs = insert (cwd @ [''node_modules'']) (dirs d), files = files d\<rparr>)
      else if cmd = ''git init''
      then (0, \<lparr>dirs = insert (cwd @ [''.git'']) (dirs d), files = files d\<rparr>)
      else (0, d))"

definition demo_stringify :: "json \<Rightarrow> string" where
  "demo_stringify j =
     (case j of
        JObj props \<Rightarrow>
          (case map_of props ''scripts'' of
             Some (JObj scripts) \<Rightarrow>
               (case map_of scripts ''start'' of
                  Some (JStr s) \<Rightarrow> ''start: '' @ s
                | _ \<Rightarrow> ''no start'')
           | _ \<Rightarrow> ''no scripts'')
      | _ \<Rightarrow> ''no object'')"

definition demo_rt :: runtime where
  "demo_rt =
     \<lparr>command = demo_command,
      JSON_parse = (\<lambda>text. if text = ''manifest'' then Some npm_manifest else None),
      JSON_stringify = demo_stringify\<rparr>"

text \<open>The same runtime, but \<open>git init\<close> fails with status 128.\<close>

definition failing_rt :: runtime where
  "failing_rt =
     \<lparr>command =
        (\<lambda>cmd cwd d. if cmd = ''git init'' then (128, d) else demo_command cmd cwd d),
      JSON_parse = JSON_parse demo_rt,
      JSON_stringify = demo_stringify\<rparr>"

text \<open>A runtime whose commands create no directory.\<close>

definition quiet_rt :: runtime where
  "quiet_rt =
     \<lparr>command =
        (\<lambda>cmd cwd d. if cmd = ''npm init -y'' then demo_command cmd cwd d else (0, d)),
      JSON_parse = JSON_parse demo_rt,
      JSON_stringify = demo_stringify\<rparr>"

definition home :: path where
  "home = [''home'']"

definition home_disk :: fsys where
  "home_disk = \<lparr>dirs = {[], [''home'']}, files = Map.empty\<rparr>"

text \<open>A disk on which \<open>/home/demo\<close> is there already.\<close>

definition taken_disk :: fsys where
  "taken_disk = \<lparr>dirs = {[], [''home''], [''home'', ''demo'']}, files = Map.empty\<rparr>"

definition demo_js :: answers where
  "demo_js =
     \<lparr>projectName = ''demo'', language = JavaScript, useMongo = True, useDocker = False,
      dependencies = ''cors, dotenv'', addEnv = False, envVars = None,
      useESLint = False, initGit = False\<rparr>"

definition demo_ts :: answers where
  "demo_ts =
     \<lparr>projectName = ''demo'', language = TypeScript, useMongo = False, useDocker = True,
      dependencies = [], addEnv = True, envVars = Some ''PORT, DB_URL'',
      useESLint = True, initGit = True\<rparr>"

definition other_js :: answers where
  "other_js =
     \<lparr>projectName = ''other'', language = JavaScript, useMongo = False, useDocker = True,
      dependencies = ''cors'', addEnv = True, envVars = Some ''PORT'',
      useESLint = True, initGit = True\<rparr>"


section \<open>Runs and their traces\<close>

lemma trace_emit [simp]: "trace (emit e w) = trace w @ [e]"
  by (simp add: emit_def)

lemma disk_emit [simp]: "disk (emit e w) = disk w"
  by (simp add: emit_def)

lemma replay_append [simp]: "replay rt (xs @ ys) d = replay rt ys (replay rt xs d)"
  by (induction xs arbitrary: d) auto

lemma mkdirs_append [simp]: "mkdirs (xs @ ys) = mkdirs xs @ mkdirs ys"
  by (induction xs rule: mkdirs.induct) auto

lemma commands_ok_append [simp]: "commands_ok (xs @ ys) \<longleftrightarrow> commands_ok xs \<and> commands_ok ys"
  by (induction xs rule: commands_ok.induct) auto

lemma mkdir_stmts_append [simp]: "mkdir_stmts (xs @ ys) = mkdir_stmts xs @ mkdir_stmts ys"
  by (induction xs rule: mkdir_stmts.induct) auto

lemma write_file_cases:
  assumes "write_file p c w = (r, w')"
  shows "(r = None \<and> trace w' = trace w @ [WriteFile p c]
            \<and> disk w' = (disk w)\<lparr>files := (files (disk w))(p \<mapsto> c)\<rparr>
            \<and> p \<notin> dirs (disk w) \<and> butlast p \<in> dirs (disk w))
         \<or> (r = Some (FilesystemError p) \<and> w' = w)"
  using assms by (auto simp: write_file_def writeFileSync_def split: if_splits)

text \<open>What one statement adds to the trace, by its outcome.\<close>

lemma exec_stmt_step:
  assumes "exec_stmt rt s w = (r, w')"
  shows "\<exists>evs. trace w' = trace w @ evs \<and> disk w' = replay rt evs (disk w)
           \<and> (\<forall>e \<in> set evs. emits s e)
           \<and> (r = None \<longrightarrow> commands_ok evs \<and> mkdirs evs = mkdir_stmts [s]
                 \<and> (\<forall>p c. s = WriteFileSync p c \<longrightarrow> evs = [WriteFile p c])
                 \<and> (\<forall>cmd cwd. s = ExecSync cmd cwd \<longrightarrow> evs = [Exec cmd cwd 0])
                 \<and> (\<forall>l. s = ConsoleLog l \<longrightarrow> evs = [Log l]))
           \<and> (\<not> commands_ok evs \<longrightarrow>
                 (\<exists>cmd cwd status. s = ExecSync cmd cwd \<and> status \<noteq> 0
                    \<and> evs = [Exec cmd cwd status]
                    \<and> r = Some (ExternalCommandError cmd status)))"
proof (cases s)
  case (MkdirSync p)
  with assms consider
      (ok) "r = None" "trace w' = trace w @ [Mkdir p]"
           "disk w' = (disk w)\<lparr>dirs := insert p (dirs (disk w))\<rparr>"
    | (err) "r \<noteq> None" "w' = w"
    by (auto simp: mkdirSync_def split: if_splits)
  then show ?thesis
  proof cases
    case ok
    with MkdirSync show ?thesis by (intro exI[of _ "[Mkdir p]"]) simp
  next
    case err
    with MkdirSync show ?thesis by (intro exI[of _ "[]"]) simp
  qed
next
  case (WriteFileSync p c)
  with assms have "write_file p c w = (r, w')" by simp
  from write_file_cases[OF this] show ?thesis
  proof
    assume "r = None \<and> trace w' = trace w @ [WriteFile p c]
            \<and> disk w' = (disk w)\<lparr>files := (files (disk w))(p \<mapsto> c)\<rparr>
            \<and> p \<notin> dirs (disk w) \<and> butlast p \<in> dirs (disk w)"
    with WriteFileSync show ?thesis by (intro exI[of _ "[WriteFile p c]"]) simp
  next
    assume "r = Some (FilesystemError p) \<and> w' = w"
    with WriteFileSync show ?thesis by (intro exI[of _ "[]"]) simp
  qed
next
  case (ExecSync cmd cwd)
  with assms show ?thesis
    by (auto split: prod.splits if_splits)
next
  case (ConsoleLog l)
  with assms show ?thesis by auto
next
  case (PatchStart p s')
  show ?thesis
  proof (cases "files (disk w) p")
    case None
    with assms PatchStart show ?thesis
      by (auto simp: readFileSync_def intro!: exI[of _ "[]"])
  next
    case (Some content)
    show ?thesis
    proof (cases "JSON_parse rt content")
      case None
      with assms PatchStart Some show ?thesis
        by (auto simp: readFileSync_def Let_def intro!: exI[of _ "[ReadFile p content]"])
    next
      case (Some j)
      note j = this
      show ?thesis
      proof (cases "set_start s' j")
        case None
        with assms PatchStart \<open>files (disk w) p = Some content\<close> j show ?thesis
          by (auto simp: readFileSync_def Let_def intro!: exI[of _ "[ReadFile p content]"])
      next
        case (Some j')
        with assms PatchStart \<open>files (disk w) p = Some content\<close> j
        have wf: "write_file p (JSON_stringify rt j') (emit (ReadFile p content) w) = (r, w')"
          by (simp add: readFileSync_def Let_def)
        from write_file_cases[OF wf] show ?thesis
        proof
          assume "r = None \<and> trace w' = trace (emit (ReadFile p content) w) @ [WriteFile p (JSON_stringify rt j')]
            \<and> disk w' = (disk (emit (ReadFile p content) w))\<lparr>files := (files (disk (emit (ReadFile p content) w)))(p \<mapsto> JSON_stringify rt j')\<rparr>
            \<and> p \<notin> dirs (disk (emit (ReadFile p content) w)) \<and> butlast p \<in> dirs (disk (emit (ReadFile p content) w))"
          with PatchStart show ?thesis
            by (intro exI[of _ "[ReadFile p content, WriteFile p (JSON_stringify rt j')]"]) simp
        next
          assume "r = Some (FilesystemError p) \<and> w' = emit (ReadFile p content) w"
          with PatchStart show ?thesis by (intro exI[of _ "[ReadFile p content]"]) simp
        qed
      qed
    qed
  qed
next
  case (Throw e)
  with assms show ?thesis by auto
qed


lemma run_append:
  "run rt (xs @ ys) w =
     (case run rt xs w of (Some e, w') \<Rightarrow> (Some e, w') | (None, w') \<Rightarrow> run rt ys w')"
  by (induction xs arbitrary: w) (auto split: prod.splits option.splits)

lemma run_append_None:
  "run rt (xs @ ys) w = (None, w'') \<longleftrightarrow>
     (\<exists>w'. run rt xs w = (None, w') \<and> run rt ys w' = (None, w''))"
  by (auto simp: run_append split: prod.splits option.splits)

lemma run_single: "run rt [s] w = exec_stmt rt s w"
  by (auto split: prod.splits option.splits)

text \<open>What a run adds to the trace, by its outcome.\<close>

lemma run_trace:
  assumes "run rt ss w = (r, w')"
  shows "\<exists>evs. trace w' = trace w @ evs \<and> disk w' = replay rt evs (disk w)
           \<and> (\<forall>e \<in> set evs. \<exists>s \<in> set ss. emits s e)
           \<and> (r = None \<longrightarrow> commands_ok evs \<and> mkdirs evs = mkdir_stmts ss
                 \<and> (\<forall>p c. WriteFileSync p c \<in> set ss \<longrightarrow> WriteFile p c \<in> set evs)
                 \<and> (\<forall>cmd cwd. ExecSync cmd cwd \<in> set ss \<longrightarrow> Exec cmd cwd 0 \<in> set evs))
           \<and> (\<not> commands_ok evs \<longrightarrow>
                 (\<exists>pre cmd cwd status. evs = pre @ [Exec cmd cwd status] \<and> commands_ok pre
                    \<and> status \<noteq> 0 \<and> r = Some (ExternalCommandError cmd status)))"
  using assms
proof (induction ss arbitrary: w)
  case Nil
  then show ?case by (intro exI[of _ "[]"]) simp
next
  case (Cons s ss)
  obtain r1 w1 where step: "exec_stmt rt s w = (r1, w1)" by (cases "exec_stmt rt s w")
  from exec_stmt_step[OF step] obtain evs1 where e1:
    "trace w1 = trace w @ evs1" "disk w1 = replay rt evs1 (disk w)"
    "\<forall>e \<in> set evs1. emits s e"
    "r1 = None \<longrightarrow> commands_ok evs1 \<and> mkdirs evs1 = mkdir_stmts [s]
       \<and> (\<forall>p c. s = WriteFileSync p c \<longrightarrow> evs1 = [WriteFile p c])
       \<and> (\<forall>cmd cwd. s = ExecSync cmd cwd \<longrightarrow> evs1 = [Exec cmd cwd 0])"
    "\<not> commands_ok evs1 \<longrightarrow>
       (\<exists>cmd cwd status. s = ExecSync cmd cwd \<and> status \<noteq> 0 \<and> evs1 = [Exec cmd cwd status]
          \<and> r1 = Some (ExternalCommandError cmd status))"
    by blast
  show ?case
  proof (cases r1)
    case (Some e)
    with step Cons.prems have "r = Some e" "w' = w1" by auto
    with e1 Some show ?thesis
      by (intro exI[of _ evs1]) (auto intro: exI[of _ "[]"])
  next
    case None
    with step Cons.prems have rest: "run rt ss w1 = (r, w')" by auto
    from Cons.IH[OF rest] obtain evs2 where e2:
      "trace w' = trace w1 @ evs2" "disk w' = replay rt evs2 (disk w1)"
      "\<forall>e \<in> set evs2. \<exists>s \<in> set ss. emits s e"
      "r = None \<longrightarrow> commands_ok evs2 \<and> mkdirs evs2 = mkdir_stmts ss
         \<and> (\<forall>p c. WriteFileSync p c \<in> set ss \<longrightarrow> WriteFile p c \<in> set evs2)
         \<and> (\<forall>cmd cwd. ExecSync cmd cwd \<in> set ss \<longrightarrow> Exec cmd cwd 0 \<in> set evs2)"
      "\<not> commands_ok evs2 \<longrightarrow>
         (\<exists>pre cmd cwd status. evs2 = pre @ [Exec cmd cwd status] \<and> commands_ok pre
            \<and> status \<noteq> 0 \<and> r = Some (ExternalCommandError cmd status))"
      by blast
    from None e1 have ok1: "commands_ok evs1" "mkdirs evs1 = mkdir_stmts [s]"
      "\<forall>p c. s = WriteFileSync p c \<longrightarrow> evs1 = [WriteFile p c]"
      "\<forall>cmd cwd. s = ExecSync cmd cwd \<longrightarrow> evs1 = [Exec cmd cwd 0]" by auto
    have "mkdir_stmts (s # ss) = mkdir_stmts [s] @ mkdir_stmts ss"
      using mkdir_stmts_append[of "[s]" ss] by simp
    with ok1 e2(4) have a: "r = None \<longrightarrow> commands_ok (evs1 @ evs2)
        \<and> mkdirs (evs1 @ evs2) = mkdir_stmts (s # ss)
        \<and> (\<forall>p c. WriteFileSync p c \<in> set (s # ss) \<longrightarrow> WriteFile p c \<in> set (evs1 @ evs2))
        \<and> (\<forall>cmd cwd. ExecSync cmd cwd \<in> set (s # ss) \<longrightarrow> Exec cmd cwd 0 \<in> set (evs1 @ evs2))"
      by auto
    have b: "\<not> commands_ok (evs1 @ evs2) \<longrightarrow>
         (\<exists>pre cmd cwd status. evs1 @ evs2 = pre @ [Exec cmd cwd status] \<and> commands_ok pre
            \<and> status \<noteq> 0 \<and> r = Some (ExternalCommandError cmd status))"
    proof
      assume "\<not> commands_ok (evs1 @ evs2)"
      with ok1 have "\<not> commands_ok evs2" by simp
      with e2(5) obtain pre cmd cwd status where
        "evs2 = pre @ [Exec cmd cwd status]" "commands_ok pre" "status \<noteq> 0"
        "r = Some (ExternalCommandError cmd status)" by blast
      with ok1 show "\<exists>pre cmd cwd status. evs1 @ evs2 = pre @ [Exec cmd cwd status]
          \<and> commands_ok pre \<and> status \<noteq> 0 \<and> r = Some (ExternalCommandError cmd status)"
        by (intro exI[of _ "evs1 @ pre"] exI[of _ cmd] exI[of _ cwd] exI[of _ status]) simp
    qed
    from e1 e2 have c: "\<forall>e \<in> set (evs1 @ evs2). \<exists>s' \<in> set (s # ss). emits s' e"
      by auto
    from e1 e2 a b c show ?thesis
      by (intro exI[of _ "evs1 @ evs2"]) simp
  qed
qed


lemmas script_defs =
  script_def scaffold_def env_stmts_def install_def configs_def git_def created_def
  patch_def instructions_def

lemma script_writes:
  "WriteFileSync p c \<in> set (script rt pp a) \<longleftrightarrow>
     (p = pp @ serverPath a \<and> c = serverContent a)
     \<or> (addEnv a \<and> (\<exists>input. envVars a = Some input \<and> p = pp @ [''.env'']
           \<and> c = envContent (tokens input)))
     \<or> (useDocker a \<and> p = pp @ [''Dockerfile''] \<and> c = dockerfile)
     \<or> (p = pp @ [''.gitignore''] \<and> c = gitignore)
     \<or> (isTS a \<and> p = pp @ [''tsconfig.json''] \<and> c = JSON_stringify rt tsconfig)
     \<or> (useESLint a \<and> p = pp @ [''.eslintrc.json''] \<and> c = JSON_stringify rt (eslintConfig a))
     \<or> (useESLint a \<and> p = pp @ [''.prettierrc''] \<and> c = ''{}'')"
  by (auto simp: script_defs folders_def split: option.splits)

lemma script_patch:
  "PatchStart p s \<in> set (script rt pp a) \<longleftrightarrow> p = manifest pp \<and> s = startScript a"
  by (auto simp: script_defs folders_def split: option.splits)

lemma script_mkdirs:
  "mkdir_stmts (script rt pp a) =
     pp # map (\<lambda>folder. pp @ [folder]) (folders @ (if isTS a then [''src''] else []))"
  by (simp add: script_defs folders_def split: option.splits)

lemma generate_trace:
  fixes rt cwd a d
  defines "r \<equiv> generate rt cwd a d"
  defines "tr \<equiv> trace (snd r)"
  shows "disk (snd r) = replay rt tr d"
    and "\<forall>e \<in> set tr. \<exists>s \<in> set (script rt (projectPath cwd a) a). emits s e"
    and "fst r = None \<Longrightarrow> commands_ok tr"
    and "fst r = None \<Longrightarrow> mkdirs tr = mkdir_stmts (script rt (projectPath cwd a) a)"
    and "fst r = None \<Longrightarrow> WriteFileSync p c \<in> set (script rt (projectPath cwd a) a)
           \<Longrightarrow> WriteFile p c \<in> set tr"
    and "\<not> commands_ok tr \<Longrightarrow>
           \<exists>pre cmd cwd status. tr = pre @ [Exec cmd cwd status] \<and> commands_ok pre
              \<and> status \<noteq> 0 \<and> fst r = Some (ExternalCommandError cmd status)"
    and "fst r = None \<Longrightarrow> ExecSync cmd p' \<in> set (script rt (projectPath cwd a) a)
           \<Longrightarrow> Exec cmd p' 0 \<in> set tr"
proof -
  have run: "run rt (script rt (projectPath cwd a) a) \<lparr>disk = d, trace = []\<rparr> = (fst r, snd r)"
    by (simp add: r_def generate_def)
  from run_trace[OF run] obtain evs where e:
    "trace (snd r) = evs" "disk (snd r) = replay rt evs d"
    "\<forall>e \<in> set evs. \<exists>s \<in> set (script rt (projectPath cwd a) a). emits s e"
    "fst r = None \<longrightarrow> commands_ok evs \<and> mkdirs evs = mkdir_stmts (script rt (projectPath cwd a) a)
       \<and> (\<forall>p c. WriteFileSync p c \<in> set (script rt (projectPath cwd a) a) \<longrightarrow> WriteFile p c \<in> set evs)
       \<and> (\<forall>cmd cwd'. ExecSync cmd cwd' \<in> set (script rt (projectPath cwd a) a) \<longrightarrow> Exec cmd cwd' 0 \<in> set evs)"
    "\<not> commands_ok evs \<longrightarrow>
       (\<exists>pre cmd cwd status. evs = pre @ [Exec cmd cwd status] \<and> commands_ok pre
          \<and> status \<noteq> 0 \<and> fst r = Some (ExternalCommandError cmd status))"
    by auto
  from e show "disk (snd r) = replay rt tr d" by (simp add: tr_def)
  from e show "\<forall>e \<in> set tr. \<exists>s \<in> set (script rt (projectPath cwd a) a). emits s e"
    by (simp add: tr_def)
  from e show "fst r = None \<Longrightarrow> commands_ok tr" by (simp add: tr_def)
  from e show "fst r = None \<Longrightarrow> mkdirs tr = mkdir_stmts (script rt (projectPath cwd a) a)"
    by (simp add: tr_def)
  from e show "fst r = None \<Longrightarrow> WriteFileSync p c \<in> set (script rt (projectPath cwd a) a)
           \<Longrightarrow> WriteFile p c \<in> set tr" by (simp add: tr_def)
  from e show "\<not> commands_ok tr \<Longrightarrow>
           \<exists>pre cmd cwd status. tr = pre @ [Exec cmd cwd status] \<and> commands_ok pre
              \<and> status \<noteq> 0 \<and> fst r = Some (ExternalCommandError cmd status)"
    by (simp add: tr_def)
  from e show "fst r = None \<Longrightarrow> ExecSync cmd p' \<in> set (script rt (projectPath cwd a) a)
           \<Longrightarrow> Exec cmd p' 0 \<in> set tr" by (simp add: tr_def)
qed

text \<open>A file event of a run comes from a statement of the script.\<close>

lemma written_by:
  assumes "WriteFile p c \<in> set (trace (snd (generate rt cwd a d)))"
  shows "WriteFileSync p c \<in> set (script rt (projectPath cwd a) a)
         \<or> p = manifest (projectPath cwd a)"
proof -
  from generate_trace(2)[of rt cwd a d] assms obtain s where
    s: "s \<in> set (script rt (projectPath cwd a) a)" "emits s (WriteFile p c)" by blast
  from s(2) have "s = WriteFileSync p c \<or> (\<exists>t. s = PatchStart p t)"
    by (cases s) auto
  with s(1) show ?thesis by (auto simp: script_patch)
qed

lemma generate_started:
  assumes "fst (generate rt cwd a d) = None"
  shows "projectPath cwd a \<notin> dirs d"
  using assms
  by (auto simp: generate_def script_def scaffold_def mkdirSync_def
        split: prod.splits option.splits if_splits sum.splits)

section \<open>Splitting and joining\<close>

lemma js_split_not_Nil [simp]: "js_split sep s \<noteq> []"
  by (induction s) (auto split: list.splits)

lemma js_split_no_sep: "sep \<notin> set s \<Longrightarrow> js_split sep s = [s]"
  by (induction s) auto

lemma js_split_append:
  "sep \<notin> set s \<Longrightarrow> js_split sep (s @ sep # rest) = s # js_split sep rest"
  by (induction s) auto

lemma js_split_pieces: "piece \<in> set (js_split sep s) \<Longrightarrow> sep \<notin> set piece"
proof (induction s arbitrary: piece)
  case Nil
  then show ?case by simp
next
  case (Cons c cs)
  then show ?case
    by (cases "js_split sep cs") (auto split: if_splits)
qed

lemma js_join_js_split: "js_join [sep] (js_split sep s) = s"
proof (induction s)
  case Nil
  show ?case by simp
next
  case (Cons c cs)
  obtain t ts where ts: "js_split sep cs = t # ts"
    by (cases "js_split sep cs") auto
  with Cons show ?case by (cases ts) auto
qed

lemma js_split_js_join_Cons:
  "\<forall>piece \<in> set (p # ps). sep \<notin> set piece \<Longrightarrow>
     js_split sep (js_join [sep] (p # ps)) = p # ps"
proof (induction ps arbitrary: p)
  case Nil
  then show ?case by (simp add: js_split_no_sep)
next
  case (Cons q qs)
  then have "js_split sep (js_join [sep] (q # qs)) = q # qs" by simp
  with Cons.prems show ?case by (simp add: js_split_append)
qed

lemma js_split_js_join:
  assumes "pieces \<noteq> []" and "\<forall>piece \<in> set pieces. sep \<notin> set piece"
  shows "js_split sep (js_join [sep] pieces) = pieces"
  using assms js_split_js_join_Cons by (cases pieces) auto

lemma tokens_nonempty: "t \<in> set (tokens input) \<Longrightarrow> t \<noteq> []"
  by (simp add: tokens_def)

lemma env_names_envContent:
  assumes "\<forall>v \<in> set vars. v \<noteq> [] \<and> CHR ''='' \<notin> set v \<and> CHR 0x0A \<notin> set v"
  shows "env_names (envContent vars) = vars"
proof (cases vars)
  case Nil
  then show ?thesis by (simp add: env_names_def envContent_def)
next
  case (Cons v vs)
  let ?lines = "map (\<lambda>v. v @ ''='') vars"
  have "?lines \<noteq> []" using Cons by simp
  moreover have "\<forall>line \<in> set ?lines. CHR 0x0A \<notin> set line" using assms by auto
  ultimately have "js_split (CHR 0x0A) (js_join [CHR 0x0A] ?lines) = ?lines"
    by (rule js_split_js_join)
  then have "env_names (envContent vars)
      = map (takeWhile (\<lambda>c. c \<noteq> CHR ''='')) (filter (\<lambda>line. line \<noteq> []) ?lines)"
    by (simp add: env_names_def envContent_def)
  also have "filter (\<lambda>line. line \<noteq> []) ?lines = ?lines"
    by (induction vars) auto
  also have "map (takeWhile (\<lambda>c. c \<noteq> CHR ''='')) ?lines = vars"
    using assms
  proof (induction vars)
    case Nil
    show ?case by simp
  next
    case (Cons v vs)
    then have "takeWhile (\<lambda>c. c \<noteq> CHR ''='') (v @ ''='') = v"
      by (auto simp: takeWhile_tail takeWhile_eq_all_conv[THEN iffD2])
    with Cons show ?case by simp
  qed
  finally show ?thesis .
qed

section \<open>The statements before and after the patch of the manifest\<close>

lemma commands_ok_exec:
  "commands_ok evs \<Longrightarrow> Exec cmd p status \<in> set evs \<Longrightarrow> status = 0"
  by (induction evs rule: commands_ok.induct) auto

lemma dirs_replay:
  assumes "\<forall>cmd p x. dirs (snd (command rt cmd p x)) = dirs x"
  shows "dirs (replay rt evs d) = dirs d \<union> set (mkdirs evs)"
proof (induction evs arbitrary: d)
  case Nil
  show ?case by simp
next
  case (Cons e evs)
  with assms show ?case by (cases e) auto
qed

lemma entry_content:
  assumes "WriteFile (projectPath cwd a @ serverPath a) c \<in> set (trace (snd (generate rt cwd a d)))"
  shows "c = serverContent a"
  using written_by[OF assms]
  by (auto simp: script_writes manifest_def serverPath_def split: if_splits)








lemma script_split:
  "script rt pp a =
     (scaffold pp a @ install pp a @ configs rt pp a @ git pp a @ [created a])
     @ [patch pp a] @ instructions a"
  by (simp add: script_def)








section \<open>The claims\<close>

text \<open>
  C1, as the script does it.  The list of runtime dependencies is \<open>express\<close>, then
  \<open>mongoose\<close> when \<open>useMongo\<close> is true, then every non-empty trimmed piece of the
  comma-separated input, in input order and with duplicates kept.  So \<open>mongoose\<close> is in
  the list when \<open>useMongo\<close> is true or when the user typed it among the extra
  dependencies.  A run that completes has installed exactly this list with one
  \<open>npm install\<close>.
\<close>

theorem deps_assembled:
  "deps a = ''express'' # (if useMongo a then [''mongoose''] else [])
              @ filter (\<lambda>t. t \<noteq> []) (map trim (js_split (CHR '','') (dependencies a)))
   \<and> (''mongoose'' \<in> set (deps a)
        \<longleftrightarrow> useMongo a
            \<or> ''mongoose'' \<in> set (filter (\<lambda>t. t \<noteq> [])
                                   (map trim (js_split (CHR '','') (dependencies a)))))
   \<and> (fst (generate rt cwd a d) = None \<longrightarrow>
        Exec (''npm install '' @ js_join '' '' (deps a)) (projectPath cwd a) 0
          \<in> set (trace (snd (generate rt cwd a d))))"
proof -
  have "ExecSync (''npm install '' @ js_join '' '' (deps a)) (projectPath cwd a)
          \<in> set (script rt (projectPath cwd a) a)"
    by (simp add: script_def install_def deps_def)
  with generate_trace(7)[of rt cwd a d] show ?thesis
    by (auto simp: deps_def tokens_def)
qed

theorem deps_assembled_witness:
  "fst (generate demo_rt home demo_js home_disk) = None
   \<and> deps demo_js = [''express'', ''mongoose'', ''cors'', ''dotenv'']
   \<and> Exec ''npm install express mongoose cors dotenv'' [''home'', ''demo''] 0
        \<in> set (trace (snd (generate demo_rt home demo_js home_disk)))"
proof -
  have ok: "fst (generate demo_rt home demo_js home_disk) = None" by code_simp
  have p: "projectPath home demo_js = [''home'', ''demo'']" by code_simp
  have l: "deps demo_js = [''express'', ''mongoose'', ''cors'', ''dotenv'']" by code_simp
  from deps_assembled[of demo_js demo_rt home home_disk, THEN conjunct2, THEN conjunct2] ok
  have "Exec (''npm install '' @ js_join '' '' (deps demo_js)) (projectPath home demo_js) 0
          \<in> set (trace (snd (generate demo_rt home demo_js home_disk)))"
    by simp
  with ok l show ?thesis by (simp add: p)
qed

text \<open>
  C1 as stated fails: with \<open>useMongo\<close> false and \<open>mongoose\<close> typed as an extra
  dependency the list contains \<open>mongoose\<close>.
\<close>

theorem mongoose_without_useMongo:
  "\<not> useMongo (demo_js\<lparr>useMongo := False, dependencies := ''mongoose''\<rparr>)
   \<and> deps (demo_js\<lparr>useMongo := False, dependencies := ''mongoose''\<rparr>)
       = [''express'', ''mongoose'']"
  by code_simp

text \<open>
  C2, as the script does it.  In a run that completes, the directories the generator
  itself creates are the project directory and, in it, \<open>routes\<close>, \<open>controllers\<close>,
  \<open>models\<close> and \<open>config\<close>, and \<open>src\<close> exactly when the language is TypeScript.  When
  moreover the commands it launches create and remove no directory (and every directory
  of the disk it started on has its parent), these are all the subfolders of the
  project directory at the end.
\<close>

theorem generated_subfolders:
  assumes "fst (generate rt cwd a d) = None"
  shows "mkdirs (trace (snd (generate rt cwd a d)))
           = projectPath cwd a
             # map (\<lambda>folder. projectPath cwd a @ [folder])
                 ([''routes'', ''controllers'', ''models'', ''config'']
                  @ (if language a = TypeScript then [''src''] else []))
         \<and> ((\<forall>p \<in> dirs d. butlast p \<in> dirs d)
              \<and> (\<forall>cmd p x. dirs (snd (command rt cmd p x)) = dirs x)
            \<longrightarrow> subfolders (projectPath cwd a) (disk (snd (generate rt cwd a d)))
                  = set [''routes'', ''controllers'', ''models'', ''config'']
                    \<union> (if language a = TypeScript then {''src''} else {}))"
proof -
  let ?r = "generate rt cwd a d" and ?pp = "projectPath cwd a"
  from generate_trace(4)[OF assms] have mk: "mkdirs (trace (snd ?r))
      = ?pp # map (\<lambda>folder. ?pp @ [folder])
          ([''routes'', ''controllers'', ''models'', ''config'']
           @ (if language a = TypeScript then [''src''] else []))"
    by (simp add: script_mkdirs folders_def isTS_def)
  have "subfolders ?pp (disk (snd ?r))
          = set [''routes'', ''controllers'', ''models'', ''config'']
            \<union> (if language a = TypeScript then {''src''} else {})"
    if closed: "\<forall>p \<in> dirs d. butlast p \<in> dirs d"
      and quiet: "\<forall>cmd p x. dirs (snd (command rt cmd p x)) = dirs x"
  proof -
    have fresh: "?pp \<notin> dirs d" using assms by (rule generate_started)
    have old: "?pp @ [name] \<notin> dirs d" for name
    proof
      assume "?pp @ [name] \<in> dirs d"
      with closed have "butlast (?pp @ [name]) \<in> dirs d" by blast
      with fresh show False by simp
    qed
    have "dirs (disk (snd ?r)) = dirs d \<union> set (mkdirs (trace (snd ?r)))"
      using generate_trace(1)[of rt cwd a d] dirs_replay[OF quiet] by simp
    with old mk show ?thesis
      by (auto simp: subfolders_def)
  qed
  with mk show ?thesis by blast
qed

theorem generated_subfolders_witness:
  "fst (generate quiet_rt home demo_ts home_disk) = None
   \<and> mkdirs (trace (snd (generate quiet_rt home demo_ts home_disk)))
       = [[''home'', ''demo''], [''home'', ''demo'', ''routes''],
          [''home'', ''demo'', ''controllers''], [''home'', ''demo'', ''models''],
          [''home'', ''demo'', ''config''], [''home'', ''demo'', ''src'']]
   \<and> subfolders (projectPath home demo_ts) (disk (snd (generate quiet_rt home demo_ts home_disk)))
       = {''routes'', ''controllers'', ''models'', ''config'', ''src''}"
proof -
  have ok: "fst (generate quiet_rt home demo_ts home_disk) = None" by code_simp
  have closed: "\<forall>p \<in> dirs home_disk. butlast p \<in> dirs home_disk"
    by (simp add: home_disk_def)
  have quiet: "\<forall>cmd p x. dirs (snd (command quiet_rt cmd p x)) = dirs x"
    by (simp add: quiet_rt_def demo_rt_def demo_command_def)
  have p: "projectPath home demo_ts = [''home'', ''demo'']" by code_simp
  have l: "language demo_ts = TypeScript" by (simp add: demo_ts_def)
  from generated_subfolders[OF ok] closed quiet ok show ?thesis
    by (simp add: p l insert_commute)
qed

text \<open>
  C2 as stated fails: the script launches \<open>npm install\<close> in the project directory
  (line 100, always, since \<open>express\<close> is always a dependency), and with a package manager
  that creates \<open>node_modules\<close> there the project directory of a completed JavaScript
  run has a fifth subfolder.
\<close>

theorem node_modules_subfolder:
  "fst (generate demo_rt home demo_js home_disk) = None
   \<and> language demo_js = JavaScript
   \<and> ''node_modules'' \<in> subfolders (projectPath home demo_js)
        (disk (snd (generate demo_rt home demo_js home_disk)))
   \<and> subfolders (projectPath home demo_js) (disk (snd (generate demo_rt home demo_js home_disk)))
       \<noteq> {''routes'', ''controllers'', ''models'', ''config''}"
proof -
  have 1: "fst (generate demo_rt home demo_js home_disk) = None" by code_simp
  have 2: "language demo_js = JavaScript" by code_simp
  have "[''home'', ''demo'', ''node_modules'']
          \<in> dirs (disk (snd (generate demo_rt home demo_js home_disk)))" by code_simp
  moreover have "projectPath home demo_js = [''home'', ''demo'']" by code_simp
  ultimately have 3: "''node_modules'' \<in> subfolders (projectPath home demo_js)
        (disk (snd (generate demo_rt home demo_js home_disk)))"
    by (simp add: subfolders_def)
  have 4: "subfolders (projectPath home demo_js)
        (disk (snd (generate demo_rt home demo_js home_disk)))
       \<noteq> {''routes'', ''controllers'', ''models'', ''config''}"
  proof
    assume "subfolders (projectPath home demo_js)
        (disk (snd (generate demo_rt home demo_js home_disk)))
       = {''routes'', ''controllers'', ''models'', ''config''}"
    with 3 have "''node_modules'' \<in> {''routes'', ''controllers'', ''models'', ''config''}"
      by (simp only:)
    then show False by simp
  qed
  from 1 2 3 4 show ?thesis by (intro conjI)
qed

text \<open>
  C3.  A run that completes has written the entry point: at \<open>src/index.ts\<close> when the
  language is TypeScript and at \<open>server.js\<close> otherwise.  No run writes the other of the
  two files, and what is written at the entry point is the text of lines 62 to 64: the
  import of \<open>express\<close> in the syntax of the language, then the creation of the
  application and \<open>app.listen(3000, ...)\<close> with its \<open>console.log\<close>.
\<close>

theorem entry_point_written:
  "(fst (generate rt cwd a d) = None \<longrightarrow>
      WriteFile (projectPath cwd a
                 @ (if language a = TypeScript then [''src'', ''index.ts''] else [''server.js'']))
        (serverContent a) \<in> set (trace (snd (generate rt cwd a d))))
   \<and> (\<forall>c. WriteFile (projectPath cwd a
                 @ (if language a = TypeScript then [''server.js''] else [''src'', ''index.ts''])) c
          \<notin> set (trace (snd (generate rt cwd a d))))
   \<and> (\<forall>c. WriteFile (projectPath cwd a
                 @ (if language a = TypeScript then [''src'', ''index.ts''] else [''server.js''])) c
            \<in> set (trace (snd (generate rt cwd a d)))
          \<longrightarrow> c = serverContent a)
   \<and> serverContent a
       = (if language a = TypeScript then ''import express from 'express';''
          else ''const express = require('express');'')
         @ ''\<newline>const app = express();\<newline>app.listen(3000, () => console.log('Server running'));\<newline>''"
proof -
  let ?r = "generate rt cwd a d" and ?pp = "projectPath cwd a"
  have path: "serverPath a = (if language a = TypeScript then [''src'', ''index.ts''] else [''server.js''])"
    by (simp add: serverPath_def isTS_def)
  have "WriteFileSync (?pp @ serverPath a) (serverContent a) \<in> set (script rt ?pp a)"
    by (simp add: script_writes)
  then have 1: "fst ?r = None \<longrightarrow> WriteFile (?pp @ serverPath a) (serverContent a) \<in> set (trace (snd ?r))"
    using generate_trace(5)[of rt cwd a d] by blast
  have 2: "WriteFile (?pp @ (if language a = TypeScript then [''server.js''] else [''src'', ''index.ts''])) c
             \<notin> set (trace (snd ?r))" for c
  proof
    assume "WriteFile (?pp @ (if language a = TypeScript then [''server.js''] else [''src'', ''index.ts''])) c
              \<in> set (trace (snd ?r))"
    from written_by[OF this] show False
      by (auto simp: script_writes manifest_def serverPath_def isTS_def split: if_splits)
  qed
  have 3: "WriteFile (?pp @ serverPath a) c \<in> set (trace (snd ?r)) \<longrightarrow> c = serverContent a" for c
    using entry_content by blast
  have 4: "serverContent a
       = (if language a = TypeScript then ''import express from 'express';''
          else ''const express = require('express');'')
         @ ''\<newline>const app = express();\<newline>app.listen(3000, () => console.log('Server running'));\<newline>''"
    by (simp add: serverContent_def isTS_def)
  from 1 2 3 4 show ?thesis unfolding path by blast
qed

theorem entry_point_written_witness:
  "fst (generate demo_rt home demo_ts home_disk) = None
   \<and> WriteFile [''home'', ''demo'', ''src'', ''index.ts'']
        ''import express from 'express';\<newline>const app = express();\<newline>app.listen(3000, () => console.log('Server running'));\<newline>''
      \<in> set (trace (snd (generate demo_rt home demo_ts home_disk)))"
proof -
  have ok: "fst (generate demo_rt home demo_ts home_disk) = None" by code_simp
  have p: "projectPath home demo_ts = [''home'', ''demo'']" by code_simp
  have l: "language demo_ts = TypeScript" by (simp add: demo_ts_def)
  from entry_point_written[of demo_rt home demo_ts home_disk, THEN conjunct1] ok
  have w: "WriteFile [''home'', ''demo'', ''src'', ''index.ts''] (serverContent demo_ts)
             \<in> set (trace (snd (generate demo_rt home demo_ts home_disk)))"
    by (simp add: p l)
  have c: "serverContent demo_ts = ''import express from 'express';\<newline>const app = express();\<newline>app.listen(3000, () => console.log('Server running'));\<newline>''"
    by code_simp
  from ok w show ?thesis unfolding c by (rule conjI)
qed

text \<open>
  C4.  Two runs, on any runtimes, working directories and disks, for answers with the
  same language: whatever each writes at its entry point is the same text.
\<close>

theorem entry_content_by_language:
  assumes "language a = language b"
    and "WriteFile (projectPath cwd a @ serverPath a) ca \<in> set (trace (snd (generate rt cwd a d)))"
    and "WriteFile (projectPath cwd' b @ serverPath b) cb \<in> set (trace (snd (generate rt' cwd' b d')))"
  shows "ca = cb"
proof -
  from assms(2) have "ca = serverContent a" by (rule entry_content)
  moreover from assms(3) have "cb = serverContent b" by (rule entry_content)
  moreover from assms(1) have "serverContent a = serverContent b"
    by (simp add: serverContent_def isTS_def)
  ultimately show ?thesis by simp
qed

theorem entry_content_by_language_witness:
  "language demo_js = language other_js
   \<and> WriteFile (projectPath home demo_js @ serverPath demo_js) (serverContent demo_js)
        \<in> set (trace (snd (generate demo_rt home demo_js home_disk)))
   \<and> WriteFile (projectPath [] other_js @ serverPath other_js) (serverContent demo_js)
        \<in> set (trace (snd (generate quiet_rt [] other_js home_disk)))"
proof -
  have 1: "language demo_js = language other_js" by code_simp
  have 2: "WriteFile (projectPath home demo_js @ serverPath demo_js) (serverContent demo_js)
        \<in> set (trace (snd (generate demo_rt home demo_js home_disk)))" by code_simp
  have 3: "WriteFile (projectPath [] other_js @ serverPath other_js) (serverContent other_js)
        \<in> set (trace (snd (generate quiet_rt [] other_js home_disk)))" by code_simp
  from entry_content_by_language[OF 1 2 3] 1 2 3 show ?thesis by simp
qed

text \<open>
  C5, as the script does it.  A run writes \<open>.env\<close> only when \<open>addEnv\<close> is true, and a
  run that completes with \<open>addEnv\<close> true has written it.  Its content is the lines
  \<open>NAME=\<close>, one per non-empty trimmed piece of the input, in input order, joined by
  line feeds.  Reading the names back gives the list of pieces when no piece contains
  \<open>=\<close> or a line feed.
\<close>

theorem env_file_written:
  "(\<forall>c. WriteFile (projectPath cwd a @ [''.env'']) c \<in> set (trace (snd (generate rt cwd a d)))
        \<longrightarrow> addEnv a
            \<and> (\<exists>input. envVars a = Some input
                 \<and> c = js_join ''\<newline>'' (map (\<lambda>name. name @ ''='') (tokens input))
                 \<and> ((\<forall>name \<in> set (tokens input). CHR ''='' \<notin> set name \<and> CHR 0x0A \<notin> set name)
                      \<longrightarrow> env_names c = tokens input)))
   \<and> (fst (generate rt cwd a d) = None \<and> addEnv a
        \<longrightarrow> (\<exists>c. WriteFile (projectPath cwd a @ [''.env'']) c
                    \<in> set (trace (snd (generate rt cwd a d)))))"
proof -
  let ?r = "generate rt cwd a d" and ?pp = "projectPath cwd a"
  have 1: "addEnv a
            \<and> (\<exists>input. envVars a = Some input
                 \<and> c = js_join ''\<newline>'' (map (\<lambda>name. name @ ''='') (tokens input))
                 \<and> ((\<forall>name \<in> set (tokens input). CHR ''='' \<notin> set name \<and> CHR 0x0A \<notin> set name)
                      \<longrightarrow> env_names c = tokens input))"
    if w: "WriteFile (?pp @ [''.env'']) c \<in> set (trace (snd ?r))" for c
  proof -
    from written_by[OF w] obtain input where i: "addEnv a" "envVars a = Some input"
      "c = envContent (tokens input)"
      by (auto simp: script_writes manifest_def serverPath_def split: if_splits)
    have "env_names c = tokens input"
      if "\<forall>name \<in> set (tokens input). CHR ''='' \<notin> set name \<and> CHR 0x0A \<notin> set name"
      unfolding i(3) using that tokens_nonempty by (intro env_names_envContent) blast
    with i show ?thesis by (simp add: envContent_def)
  qed
  have 2: "\<exists>c. WriteFile (?pp @ [''.env'']) c \<in> set (trace (snd ?r))"
    if ok: "fst ?r = None" and env: "addEnv a"
  proof (cases "envVars a")
    case None
    with env have "Throw TypeError \<in> set (script rt ?pp a)"
      by (simp add: script_defs)
    then obtain xs ys where split: "script rt ?pp a = xs @ Throw TypeError # ys"
      by (auto simp: in_set_conv_decomp)
    from ok have "run rt (script rt ?pp a) \<lparr>disk = d, trace = []\<rparr> = (None, snd ?r)"
      by (simp add: generate_def prod_eq_iff)
    then show ?thesis unfolding split
      by (auto simp: run_append_None)
  next
    case (Some input)
    with env have "WriteFileSync (?pp @ [''.env'']) (envContent (tokens input))
                     \<in> set (script rt ?pp a)"
      by (simp add: script_writes)
    from generate_trace(5)[OF ok this] show ?thesis by blast
  qed
  from 1 2 show ?thesis by blast
qed

theorem env_file_written_witness:
  "fst (generate demo_rt home demo_ts home_disk) = None \<and> addEnv demo_ts
   \<and> WriteFile [''home'', ''demo'', ''.env''] ''PORT=\<newline>DB_URL=''
        \<in> set (trace (snd (generate demo_rt home demo_ts home_disk)))
   \<and> env_names ''PORT=\<newline>DB_URL='' = [''PORT'', ''DB_URL'']
   \<and> tokens ''PORT, DB_URL'' = [''PORT'', ''DB_URL'']"
proof -
  have ok: "fst (generate demo_rt home demo_ts home_disk) = None" by code_simp
  have env: "addEnv demo_ts" by code_simp
  have p: "projectPath home demo_ts = [''home'', ''demo'']" by code_simp
  have i: "envVars demo_ts = Some ''PORT, DB_URL''" by code_simp
  have t: "tokens ''PORT, DB_URL'' = [''PORT'', ''DB_URL'']" by code_simp
  note written = env_file_written[of home demo_ts demo_rt home_disk]
  from written[THEN conjunct2] ok env obtain c where
    w: "WriteFile [''home'', ''demo'', ''.env''] c
          \<in> set (trace (snd (generate demo_rt home demo_ts home_disk)))"
    by (auto simp: p)
  with written[THEN conjunct1] have c: "c = ''PORT=\<newline>DB_URL=''" and n: "env_names c = [''PORT'', ''DB_URL'']"
    by (auto simp: p i t)
  from ok env w c n t show ?thesis by simp
qed

text \<open>
  C5 as stated fails: the script writes the pieces as they are typed, so for the input
  \<open>PORT=3000\<close> the file holds the line \<open>PORT=3000=\<close>, whose variable is \<open>PORT\<close>.
\<close>

theorem env_names_differ:
  "fst (generate demo_rt home (demo_ts\<lparr>envVars := Some ''PORT=3000''\<rparr>) home_disk) = None
   \<and> addEnv (demo_ts\<lparr>envVars := Some ''PORT=3000''\<rparr>)
   \<and> tokens ''PORT=3000'' = [''PORT=3000'']
   \<and> WriteFile [''home'', ''demo'', ''.env''] ''PORT=3000=''
        \<in> set (trace (snd (generate demo_rt home (demo_ts\<lparr>envVars := Some ''PORT=3000''\<rparr>) home_disk)))
   \<and> env_names ''PORT=3000='' = [''PORT'']"
  by code_simp

text \<open>
  C6, as the script does it.  When \<open>addEnv\<close> is true and the input has no non-empty
  trimmed piece, a run that completes has written \<open>.env\<close>, with empty content: line 71
  is not guarded by the number of pieces.
\<close>

theorem empty_env_file:
  assumes "fst (generate rt cwd a d) = None"
    and "addEnv a" and "envVars a = Some input" and "tokens input = []"
  shows "WriteFile (projectPath cwd a @ [''.env'']) [] \<in> set (trace (snd (generate rt cwd a d)))"
proof -
  from assms(2-4) have "WriteFileSync (projectPath cwd a @ [''.env'']) []
      \<in> set (script rt (projectPath cwd a) a)"
    by (simp add: script_writes envContent_def)
  from generate_trace(5)[OF assms(1) this] show ?thesis .
qed

theorem empty_env_file_witness:
  "fst (generate demo_rt home (demo_ts\<lparr>envVars := Some '' , ''\<rparr>) home_disk) = None
   \<and> addEnv (demo_ts\<lparr>envVars := Some '' , ''\<rparr>)
   \<and> envVars (demo_ts\<lparr>envVars := Some '' , ''\<rparr>) = Some '' , ''
   \<and> tokens '' , '' = []
   \<and> WriteFile [''home'', ''demo'', ''.env''] []
        \<in> set (trace (snd (generate demo_rt home (demo_ts\<lparr>envVars := Some '' , ''\<rparr>) home_disk)))"
proof -
  let ?a = "demo_ts\<lparr>envVars := Some '' , ''\<rparr>"
  have 1: "fst (generate demo_rt home ?a home_disk) = None" by code_simp
  have 2: "addEnv ?a" by code_simp
  have 3: "envVars ?a = Some '' , ''" by simp
  have 4: "tokens '' , '' = []" by code_simp
  have p: "projectPath home ?a = [''home'', ''demo'']" by code_simp
  from empty_env_file[OF 1 2 3 4] 1 2 3 4 show ?thesis by (simp add: p)
qed

text \<open>
  C6 as stated fails: with \<open>addEnv\<close> true and the empty input, the run writes \<open>.env\<close>
  and the file is on the disk at the end, empty.
\<close>

theorem env_file_not_skipped:
  "addEnv (demo_ts\<lparr>envVars := Some []\<rparr>)
   \<and> tokens [] = []
   \<and> fst (generate demo_rt home (demo_ts\<lparr>envVars := Some []\<rparr>) home_disk) = None
   \<and> WriteFile [''home'', ''demo'', ''.env''] []
        \<in> set (trace (snd (generate demo_rt home (demo_ts\<lparr>envVars := Some []\<rparr>) home_disk)))
   \<and> files (disk (snd (generate demo_rt home (demo_ts\<lparr>envVars := Some []\<rparr>) home_disk)))
        [''home'', ''demo'', ''.env''] = Some []"
  by code_simp

text \<open>
  C7.  When the project directory exists already, the first statement
  (\<open>fs.mkdirSync(projectPath)\<close>, line 50) throws: the run ends with \<open>PathExistsError\<close>,
  the disk is as it was, and the trace is empty (no directory created, no file written,
  no command run, nothing printed).
\<close>

theorem existing_directory_aborts:
  "projectPath cwd a \<in> dirs d \<Longrightarrow>
     generate rt cwd a d
       = (Some (PathExistsError (projectPath cwd a)), \<lparr>disk = d, trace = []\<rparr>)"
  by (simp add: generate_def script_def scaffold_def mkdirSync_def)

theorem existing_directory_aborts_witness:
  "projectPath home demo_js \<in> dirs taken_disk
   \<and> generate demo_rt home demo_js taken_disk
       = (Some (PathExistsError [''home'', ''demo'']), \<lparr>disk = taken_disk, trace = []\<rparr>)"
proof -
  have p: "projectPath home demo_js = [''home'', ''demo'']" by code_simp
  have h: "projectPath home demo_js \<in> dirs taken_disk" by code_simp
  from existing_directory_aborts[OF h, of demo_rt] h p show ?thesis by simp
qed



text \<open>
  C9.  When a command of a run has exited with a status other than 0, the run has ended
  with the error that carries this command and this status; the command is the last
  event of the trace (nothing was written, run or printed after it), every command
  before it exited with 0 (none is run again), and the disk is the one the failing
  command left, after everything the events before it had made: nothing is undone.
\<close>

theorem failed_command_ends_run:
  assumes "Exec cmd p status \<in> set (trace (snd (generate rt cwd a d)))" and "status \<noteq> 0"
  shows "fst (generate rt cwd a d) = Some (ExternalCommandError cmd status)
         \<and> (\<exists>pre. trace (snd (generate rt cwd a d)) = pre @ [Exec cmd p status]
               \<and> commands_ok pre
               \<and> disk (snd (generate rt cwd a d)) = snd (command rt cmd p (replay rt pre d)))"
proof -
  let ?r = "generate rt cwd a d"
  from assms commands_ok_exec have "\<not> commands_ok (trace (snd ?r))" by blast
  from generate_trace(6)[OF this] obtain pre cmd' p' status' where
    last: "trace (snd ?r) = pre @ [Exec cmd' p' status']" "commands_ok pre" "status' \<noteq> 0"
      "fst ?r = Some (ExternalCommandError cmd' status')"
    by blast
  from assms(1) last(1) have "Exec cmd p status \<in> set pre \<or> Exec cmd p status = Exec cmd' p' status'"
    by auto
  with commands_ok_exec[OF last(2)] assms(2) have same: "cmd' = cmd" "p' = p" "status' = status"
    by auto
  have "disk (snd ?r) = replay rt (trace (snd ?r)) d" by (rule generate_trace(1))
  with last same show ?thesis by simp
qed

theorem failed_command_ends_run_witness:
  "Exec ''git init'' [''home'', ''demo''] 128
     \<in> set (trace (snd (generate failing_rt home demo_ts home_disk)))
   \<and> (128::nat) \<noteq> 0
   \<and> fst (generate failing_rt home demo_ts home_disk)
       = Some (ExternalCommandError ''git init'' 128)
   \<and> last (trace (snd (generate failing_rt home demo_ts home_disk)))
       = Exec ''git init'' [''home'', ''demo''] 128
   \<and> files (disk (snd (generate failing_rt home demo_ts home_disk)))
        [''home'', ''demo'', ''.gitignore''] = Some gitignore"
proof -
  have 1: "Exec ''git init'' [''home'', ''demo''] 128
     \<in> set (trace (snd (generate failing_rt home demo_ts home_disk)))" by code_simp
  have 2: "(128::nat) \<noteq> 0" by simp
  have 3: "files (disk (snd (generate failing_rt home demo_ts home_disk)))
        [''home'', ''demo'', ''.gitignore''] = Some gitignore" by code_simp
  from failed_command_ends_run[OF 1 2] 1 2 3 show ?thesis by auto
qed



end
